theory Spec2Isabelle
  imports Main "HOL-Library.Char_ord" "HOL-Library.List_Lexorder" "HOL-Library.AList"
begin

section \<open>Python strings and exceptions\<close>

text \<open>
  The model of \<^verbatim>\<open>qtodotxt/lib/tasklib.py\<close>. A Python string is a \<^typ>\<open>string\<close>, a list
  of 8-bit characters; the order on strings is the lexicographic order on character
  codes, as Python's \<^verbatim>\<open><\<close> on \<^verbatim>\<open>str\<close>. Every exception the code can raise is a
  value of \<open>error\<close>, and a function that can raise returns \<open>error + 'a\<close>.
\<close>

datatype error = IndexError | TypeError | ValueError | RuntimeError | AttributeError

text \<open>\<^verbatim>\<open>s.split(' ')\<close>: cut at every single space; the result is never empty.\<close>

fun split_sp :: "string \<Rightarrow> string list" where
  "split_sp [] = [[]]"
| "split_sp (c # cs) =
     (if c = CHR '' '' then [] # split_sp cs
      else (case split_sp cs of [] \<Rightarrow> [[c]] | w # ws \<Rightarrow> (c # w) # ws))"

text \<open>\<^verbatim>\<open>" ".join(ws)\<close>.\<close>

fun join_sp :: "string list \<Rightarrow> string" where
  "join_sp [] = []"
| "join_sp [w] = w"
| "join_sp (w # v # ws) = w @ CHR '' '' # join_sp (v # ws)"

text \<open>\<^verbatim>\<open>w.startswith(p)\<close>.\<close>

definition startswith :: "string \<Rightarrow> string \<Rightarrow> bool" where
  "startswith w p = (take (length p) w = p)"

text \<open>\<^verbatim>\<open>s.replace(old, new, 1)\<close>: the first occurrence of \<open>old\<close>, from the left.\<close>

fun replace1 :: "string \<Rightarrow> string \<Rightarrow> string \<Rightarrow> string" where
  "replace1 old new [] = (if old = [] then new else [])"
| "replace1 old new (c # cs) =
     (if startswith (c # cs) old then new @ drop (length old) (c # cs)
      else c # replace1 old new cs)"

text \<open>\<^verbatim>\<open>ord\<close> of a string is a TypeError unless the string has one character;
  \<^verbatim>\<open>chr\<close> of a code outside the 8-bit range is a ValueError in this model of strings.\<close>

definition py_ord :: "string \<Rightarrow> error + nat" where
  "py_ord s = (case s of [c] \<Rightarrow> Inr (of_char c) | _ \<Rightarrow> Inl TypeError)"

definition py_chr :: "int \<Rightarrow> error + string" where
  "py_chr n = (if 0 \<le> n \<and> n < 256 then Inr [char_of n] else Inl ValueError)"

section \<open>Dates\<close>

text \<open>
  A \<^verbatim>\<open>datetime.date\<close> is a year, a month and a day. \<open>strptime\<close> models
  \<^verbatim>\<open>datetime.strptime(s, '%Y-%m-%d').date()\<close>: the library matches the regular
  expression \<^verbatim>\<open>(\d\d\d\d)-(1[0-2]|0[1-9]|[1-9])-(3[01]|[12]\d|0[1-9]|[1-9]| [1-9])\<close>
  at the start of the string, refuses a string with characters left over, and refuses
  a year, month and day that are no date of the calendar (the year 0, the 30th of
  February). After a two-character month the next character must be \<^verbatim>\<open>-\<close>; the
  shorter alternative cannot succeed where the longer one matched, since it would
  have to be followed by a digit, so the first alternative that matches decides.
\<close>

record date =
  year :: nat
  month :: nat
  day :: nat

definition is_digit :: "char \<Rightarrow> bool" where
  "is_digit c = (CHR ''0'' \<le> c \<and> c \<le> CHR ''9'')"

definition is_digit19 :: "char \<Rightarrow> bool" where
  "is_digit19 c = (CHR ''1'' \<le> c \<and> c \<le> CHR ''9'')"

definition digit_val :: "char \<Rightarrow> nat" where
  "digit_val c = of_char c - 48"

definition digit_char :: "nat \<Rightarrow> char" where
  "digit_char n = char_of (48 + n)"

definition is_leap :: "nat \<Rightarrow> bool" where
  "is_leap y = (y mod 4 = 0 \<and> (y mod 100 \<noteq> 0 \<or> y mod 400 = 0))"

definition days_in_month :: "nat \<Rightarrow> nat \<Rightarrow> nat" where
  "days_in_month y m =
     (if m = 2 then (if is_leap y then 29 else 28)
      else if m = 4 \<or> m = 6 \<or> m = 9 \<or> m = 11 then 30 else 31)"

definition valid_date :: "date \<Rightarrow> bool" where
  "valid_date d =
     (1 \<le> year d \<and> year d \<le> 9999 \<and> 1 \<le> month d \<and> month d \<le> 12 \<and>
      1 \<le> day d \<and> day d \<le> days_in_month (year d) (month d))"

text \<open>The month group of the expression: its value and the rest of the string.\<close>

definition month_group :: "string \<Rightarrow> (nat \<times> string) option" where
  "month_group s =
     (case s of
        [] \<Rightarrow> None
      | a # r \<Rightarrow>
          (case r of
             [] \<Rightarrow> if is_digit19 a then Some (digit_val a, []) else None
           | b # r' \<Rightarrow>
               if a = CHR ''1'' \<and> CHR ''0'' \<le> b \<and> b \<le> CHR ''2''
                 then Some (10 + digit_val b, r')
               else if a = CHR ''0'' \<and> is_digit19 b then Some (digit_val b, r')
               else if is_digit19 a then Some (digit_val a, r)
               else None))"

text \<open>The day group of the expression: its value and the rest of the string.\<close>

definition day_group :: "string \<Rightarrow> (nat \<times> string) option" where
  "day_group s =
     (case s of
        [] \<Rightarrow> None
      | a # r \<Rightarrow>
          (case r of
             [] \<Rightarrow> if is_digit19 a then Some (digit_val a, []) else None
           | b # r' \<Rightarrow>
               if a = CHR ''3'' \<and> CHR ''0'' \<le> b \<and> b \<le> CHR ''1''
                 then Some (30 + digit_val b, r')
               else if CHR ''1'' \<le> a \<and> a \<le> CHR ''2'' \<and> is_digit b
                 then Some (10 * digit_val a + digit_val b, r')
               else if a = CHR ''0'' \<and> is_digit19 b then Some (digit_val b, r')
               else if is_digit19 a then Some (digit_val a, r)
               else if a = CHR '' '' \<and> is_digit19 b then Some (digit_val b, r')
               else None))"

definition strptime :: "string \<Rightarrow> error + date" where
  "strptime s =
     (case s of
        y1 # y2 # y3 # y4 # h # r \<Rightarrow>
          if is_digit y1 \<and> is_digit y2 \<and> is_digit y3 \<and> is_digit y4 \<and> h = CHR ''-'' then
            (case month_group r of
               None \<Rightarrow> Inl ValueError
             | Some (m, r1) \<Rightarrow>
                 (case r1 of
                    [] \<Rightarrow> Inl ValueError
                  | h1 # r2 \<Rightarrow>
                      if h1 = CHR ''-'' then
                        (case day_group r2 of
                           None \<Rightarrow> Inl ValueError
                         | Some (d, r3) \<Rightarrow>
                             if r3 \<noteq> [] then Inl ValueError
                             else
                               (let y = 1000 * digit_val y1 + 100 * digit_val y2
                                        + 10 * digit_val y3 + digit_val y4
                                in if y < 1 \<or> days_in_month y m < d then Inl ValueError
                                   else Inr \<lparr>year = y, month = m, day = d\<rparr>))
                      else Inl ValueError))
          else Inl ValueError
      | _ \<Rightarrow> Inl ValueError)"

text \<open>\<^verbatim>\<open>d.strftime('%Y-%m-%d')\<close>: four digits, two digits, two digits. (For a year
  before 1000 the C library decides whether the year is filled with zeros; the model
  fills it, as the documentation of \<^verbatim>\<open>%Y\<close> says.)\<close>

definition strftime :: "date \<Rightarrow> string" where
  "strftime d =
     [digit_char (year d div 1000), digit_char (year d div 100 mod 10),
      digit_char (year d div 10 mod 10), digit_char (year d mod 10), CHR ''-'',
      digit_char (month d div 10), digit_char (month d mod 10), CHR ''-'',
      digit_char (day d div 10), digit_char (day d mod 10)]"

text \<open>\<^verbatim>\<open>a <= b\<close> on dates: the order of the calendar.\<close>

definition date_le :: "date \<Rightarrow> date \<Rightarrow> bool" where
  "date_le a b =
     (year a < year b \<or> (year a = year b \<and>
        (month a < month b \<or> (month a = month b \<and> day a \<le> day b))))"

section \<open>The task\<close>

text \<open>
  \<open>is_future\<close> holds \<^verbatim>\<open>False\<close> after a reset, and \<^verbatim>\<open>None\<close> or a date once a
  \<^verbatim>\<open>t:\<close> word was read. \<open>keywords\<close> is the dictionary in insertion order: storing
  under a key that is present replaces its value where it stands.
\<close>

datatype future = FutureFalse | FutureNone | FutureDate date

record task =
  highest_priority :: string
  lowest_priority :: string
  contexts :: "string list"
  projects :: "string list"
  priority :: string
  is_complete :: bool
  completion_date :: "date option"
  is_future :: future
  "text" :: string
  due :: "date option"
  threshold :: "string option"
  "keywords" :: "(string \<times> string) list"

text \<open>\<^verbatim>\<open>Task._parseDate\<close>: the ValueError of the library is caught and becomes None.\<close>

definition parseDate :: "string \<Rightarrow> date option" where
  "parseDate s = (case strptime s of Inl e \<Rightarrow> None | Inr d \<Rightarrow> Some d)"

text \<open>\<^verbatim>\<open>Task._reset\<close>: every field but the two priority bounds.\<close>

definition reset :: "task \<Rightarrow> task" where
  "reset self =
     self\<lparr>contexts := [], projects := [], priority := [], is_complete := False,
          completion_date := None, is_future := FutureFalse, text := [], due := None,
          threshold := None, keywords := []\<rparr>"

text \<open>\<^verbatim>\<open>Task._parseWord\<close>; \<open>today\<close> is what \<^verbatim>\<open>date.today()\<close> returns.\<close>

definition parseWord :: "date \<Rightarrow> task \<Rightarrow> string \<Rightarrow> task" where
  "parseWord today self word =
     (if length word > 1 then
        if startswith word ''@'' then self\<lparr>contexts := contexts self @ [drop 1 word]\<rparr>
        else if startswith word ''+'' then self\<lparr>projects := projects self @ [drop 1 word]\<rparr>
        else if CHR '':'' \<in> set word then
          (let key = takeWhile (\<lambda>c. c \<noteq> CHR '':'') word;
               val = drop 1 (dropWhile (\<lambda>c. c \<noteq> CHR '':'') word);
               self1 = self\<lparr>keywords := AList.update key val (keywords self)\<rparr>
           in if startswith word ''due:'' then self1\<lparr>due := parseDate (drop 4 word)\<rparr>
              else if startswith word ''t:'' then
                self1\<lparr>threshold := Some (drop 2 word),
                      is_future :=
                        (case parseDate (drop 2 word) of
                           None \<Rightarrow> FutureNone
                         | Some d \<Rightarrow> if date_le d today then FutureNone else FutureDate d)\<rparr>
              else self1)
        else self
      else self)"

text \<open>\<^verbatim>\<open>re.search(r'^\([A-Z]\)$', w)\<close>: \<^verbatim>\<open>$\<close> also matches before a final newline.\<close>

definition priority_re :: "string \<Rightarrow> bool" where
  "priority_re w =
     (case w of
        a # b # c # r \<Rightarrow>
          a = CHR ''('' \<and> CHR ''A'' \<le> b \<and> b \<le> CHR ''Z'' \<and> c = CHR '')'' \<and>
          (r = [] \<or> r = [CHR 0x0A])
      | _ \<Rightarrow> False)"

text \<open>\<^verbatim>\<open>Task.parseLine\<close>. \<^verbatim>\<open>words[0]\<close> after \<^verbatim>\<open>words = words[1:]\<close> is an
  IndexError when the line has no second word.\<close>

definition parseLine :: "date \<Rightarrow> task \<Rightarrow> string \<Rightarrow> error + task" where
  "parseLine today self line =
     (case split_sp line of
        [] \<Rightarrow> Inl IndexError
      | w0 # words \<Rightarrow>
          if w0 = ''x'' then
            (case words of
               [] \<Rightarrow> Inl IndexError
             | w1 # words' \<Rightarrow>
                 (let self1 = (reset self)\<lparr>is_complete := True, completion_date := parseDate w1\<rparr>
                  in Inr ((foldl (parseWord today) self1
                             (if completion_date self1 \<noteq> None then words' else words))
                          \<lparr>text := line\<rparr>)))
          else if priority_re w0 then
            Inr ((foldl (parseWord today) ((reset self)\<lparr>priority := butlast (tl w0)\<rparr>) words)
                 \<lparr>text := line\<rparr>)
          else Inr ((foldl (parseWord today) (reset self) (w0 # words))\<lparr>text := line\<rparr>))"

text \<open>\<^verbatim>\<open>Task.__init__\<close>: \<open>init_fields\<close> is the attributes it sets, then it calls
  \<^verbatim>\<open>parseLine\<close>. \<open>lp\<close> is the value of the setting \<^verbatim>\<open>lowest_priority\<close>
  (\<^verbatim>\<open>"D"\<close> when it is not set).\<close>

definition init_fields :: "string \<Rightarrow> task" where
  "init_fields lp =
     \<lparr>highest_priority = ''A'', lowest_priority = lp, contexts = [], projects = [],
      priority = [], is_complete = False, completion_date = None,
      is_future = FutureFalse, text = [], due = None, threshold = None, keywords = []\<rparr>"

definition Task :: "string \<Rightarrow> date \<Rightarrow> string \<Rightarrow> error + task" where
  "Task lp today line = parseLine today (init_fields lp) line"

section \<open>Mutation\<close>

text \<open>\<^verbatim>\<open>Task.setCompleted\<close>; \<open>today\<close> is what \<^verbatim>\<open>date.today()\<close> returns.\<close>

definition setCompleted :: "date \<Rightarrow> task \<Rightarrow> task" where
  "setCompleted today self =
     (if is_complete self then self
      else self\<lparr>completion_date := Some today,
                text := ''x '' @ strftime today @ '' '' @ text self,
                is_complete := True\<rparr>)"

text \<open>\<^verbatim>\<open>Task.setPending\<close>; \<^verbatim>\<open>words[1]\<close> is an IndexError on a text of one word.\<close>

definition setPending :: "task \<Rightarrow> error + task" where
  "setPending self =
     (if \<not> is_complete self then Inr self
      else
        (case split_sp (text self) of
           w0 # w1 # ws \<Rightarrow>
             Inr (self\<lparr>text := (if parseDate w1 \<noteq> None then join_sp ws else join_sp (w1 # ws)),
                       is_complete := False, completion_date := None\<rparr>)
         | _ \<Rightarrow> Inl IndexError))"

text \<open>\<^verbatim>\<open>"({}) {}".format(p, t)\<close> and \<^verbatim>\<open>"({})".format(p)\<close>.\<close>

definition format_prefix :: "string \<Rightarrow> string \<Rightarrow> string" where
  "format_prefix p t = ''('' @ p @ '') '' @ t"

definition format_paren :: "string \<Rightarrow> string" where
  "format_paren p = ''('' @ p @ '')''"

text \<open>\<^verbatim>\<open>Task.increasePriority\<close>.\<close>

definition increasePriority :: "task \<Rightarrow> error + task" where
  "increasePriority self =
     (if is_complete self then Inr self
      else if priority self = [] then
        Inr (self\<lparr>priority := lowest_priority self,
                  text := format_prefix (lowest_priority self) (text self)\<rparr>)
      else if priority self \<noteq> highest_priority self then
        (case py_ord (priority self) of
           Inl e \<Rightarrow> Inl e
         | Inr n \<Rightarrow>
             (case py_chr (int n - 1) of
                Inl e \<Rightarrow> Inl e
              | Inr p \<Rightarrow> Inr (self\<lparr>priority := p, text := format_prefix p (drop 4 (text self))\<rparr>)))
      else Inr self)"

text \<open>\<^verbatim>\<open>Task.decreasePriority\<close>. In the first branch the priority is cleared before
  the text is edited, so the string the \<^verbatim>\<open>replace\<close> looks for is formatted from the
  empty priority.\<close>

definition decreasePriority :: "task \<Rightarrow> error + task" where
  "decreasePriority self =
     (if is_complete self then Inr self
      else if priority self \<ge> lowest_priority self then
        (let self1 = self\<lparr>priority := []\<rparr>;
             self2 = self1\<lparr>text := drop 4 (text self1)\<rparr>
         in Inr (self2\<lparr>text := replace1 (format_paren (priority self2)) [] (text self2)\<rparr>))
      else if priority self \<noteq> [] then
        (case py_ord (priority self) of
           Inl e \<Rightarrow> Inl e
         | Inr n \<Rightarrow>
             (case py_chr (int n + 1) of
                Inl e \<Rightarrow> Inl e
              | Inr p \<Rightarrow>
                  Inr (self\<lparr>priority := p,
                            text := replace1 (format_paren (priority self)) (format_paren p)
                                      (text self)\<rparr>)))
      else Inr self)"

section \<open>Comparison\<close>

text \<open>\<^verbatim>\<open>Task.__eq__\<close>.\<close>

definition task_eq :: "task \<Rightarrow> task \<Rightarrow> bool" where
  "task_eq self other = (text self = text other)"

text \<open>\<^verbatim>\<open>Task._lowerCompleteness\<close>.\<close>

definition lowerCompleteness :: "task \<Rightarrow> task \<Rightarrow> error + bool" where
  "lowerCompleteness self other =
     (if is_complete self \<and> \<not> is_complete other then Inr True
      else if \<not> is_complete self \<and> is_complete other then Inr False
      else Inl RuntimeError)"

text \<open>\<^verbatim>\<open>Task.__lt__\<close>.\<close>

definition task_lt :: "task \<Rightarrow> task \<Rightarrow> error + bool" where
  "task_lt self other =
     (if is_complete self \<noteq> is_complete other then lowerCompleteness self other
      else if priority self \<noteq> priority other then
        (if priority self = [] then Inr True
         else if priority other = [] then Inr False
         else Inr (priority self > priority other))
      else Inr (text self > text other))"

section \<open>Filtering\<close>

text \<open>
  A filter is its \<^verbatim>\<open>isMatch\<close>, a predicate on tasks; an entry of \<^verbatim>\<open>filters\<close> is a
  filter or \<^verbatim>\<open>None\<close>. \<open>match_any\<close> is the inner loop of \<^verbatim>\<open>filterTasks\<close> with its
  \<^verbatim>\<open>break\<close>, \<open>filter_loop\<close> the outer one; \<^verbatim>\<open>None.isMatch\<close> is an AttributeError.
\<close>

type_synonym task_filter = "task \<Rightarrow> bool"

fun match_any :: "task_filter option list \<Rightarrow> task \<Rightarrow> error + bool" where
  "match_any [] t = Inr False"
| "match_any (None # fs) t = Inl AttributeError"
| "match_any (Some f # fs) t = (if f t then Inr True else match_any fs t)"

fun filter_loop :: "task_filter option list \<Rightarrow> task list \<Rightarrow> error + task list" where
  "filter_loop fs [] = Inr []"
| "filter_loop fs (t # ts) =
     (case match_any fs t of
        Inl e \<Rightarrow> Inl e
      | Inr m \<Rightarrow>
          (case filter_loop fs ts of
             Inl e \<Rightarrow> Inl e
           | Inr r \<Rightarrow> Inr (if m then t # r else r)))"

definition filterTasks :: "task_filter option list \<Rightarrow> task list \<Rightarrow> error + task list" where
  "filterTasks filters tasks = (if None \<in> set filters then Inr tasks else filter_loop filters tasks)"

section \<open>The completion date and the completed flag\<close>

text \<open>The two readings of ``the completion date is set and the task is complete'':
  a date only on a complete task, and a date exactly on a complete task.\<close>

definition date_only_if_complete :: "task \<Rightarrow> bool" where
  "date_only_if_complete t = (completion_date t = None \<or> is_complete t)"

definition date_iff_complete :: "task \<Rightarrow> bool" where
  "date_iff_complete t = ((completion_date t \<noteq> None) = is_complete t)"

section \<open>Example inputs\<close>

text \<open>A day, and the tasks that the code builds on that day from some lines, with the
  setting \<^verbatim>\<open>lowest_priority\<close> at its default.\<close>

definition today0 :: date where
  "today0 = \<lparr>year = 2024, month = 6, day = 15\<rparr>"

definition task_milk :: task where
  "task_milk = (init_fields ''D'')\<lparr>text := ''Buy milk''\<rparr>"

definition task_A_milk :: task where
  "task_A_milk = (init_fields ''D'')\<lparr>priority := ''A'', text := ''(A) Buy milk''\<rparr>"

definition task_B_milk :: task where
  "task_B_milk = (init_fields ''D'')\<lparr>priority := ''B'', text := ''(B) Buy milk''\<rparr>"

definition task_D_milk :: task where
  "task_D_milk = (init_fields ''D'')\<lparr>priority := ''D'', text := ''(D) Buy milk''\<rparr>"

definition task_A_mom :: task where
  "task_A_mom =
     (init_fields ''D'')\<lparr>contexts := [''phone''], priority := ''A'',
                          text := ''(A) Call Mom @phone''\<rparr>"

definition task_x_foo :: task where
  "task_x_foo = (init_fields ''D'')\<lparr>is_complete := True, text := ''x foo''\<rparr>"

definition task_foo :: task where
  "task_foo = (init_fields ''D'')\<lparr>text := ''foo''\<rparr>"

definition task_D_call :: task where
  "task_D_call = (init_fields ''D'')\<lparr>priority := ''D'', text := ''(D) call foo() now''\<rparr>"

section \<open>Splitting and joining\<close>

lemma split_sp_not_Nil: "split_sp s \<noteq> []"
  by (induction s) (auto split: list.splits)

lemma join_split: "join_sp (split_sp s) = s"
proof (induction s)
  case Nil
  show ?case by simp
next
  case (Cons c cs)
  obtain w ws where sp: "split_sp cs = w # ws"
    using split_sp_not_Nil [of cs] by (cases "split_sp cs") auto
  show ?case
  proof (cases "c = CHR '' ''")
    case True
    with Cons sp show ?thesis by simp
  next
    case False
    have "join_sp ((c # w) # ws) = c # join_sp (w # ws)" by (cases ws) simp_all
    with False Cons sp show ?thesis by simp
  qed
qed

lemma split_sp_single: "split_sp line = [w] \<Longrightarrow> line = w"
  using join_split [of line] by simp

lemma split_sp_word: "CHR '' '' \<notin> set w \<Longrightarrow> split_sp (w @ CHR '' '' # s) = w # split_sp s"
  by (induction w) auto

section \<open>Formatting a date and reading it back\<close>

lemma of_char_digit_char: "n < 10 \<Longrightarrow> of_char (digit_char n) = 48 + n"
  by (simp add: digit_char_def)

lemma is_digit_digit_char: "n < 10 \<Longrightarrow> is_digit (digit_char n)"
  by (simp add: is_digit_def less_eq_char_def of_char_digit_char)

lemma digit_val_digit_char: "n < 10 \<Longrightarrow> digit_val (digit_char n) = n"
  by (simp add: digit_val_def of_char_digit_char)

lemma digit_char_not_space: "n < 10 \<Longrightarrow> digit_char n \<noteq> CHR '' ''"
proof
  assume "n < 10" and "digit_char n = CHR '' ''"
  then have "of_char (digit_char n) = (of_char (CHR '' '') :: nat)" by simp
  with \<open>n < 10\<close> show False by (simp add: of_char_digit_char)
qed

lemma digit_char_simps:
  "digit_char 0 = CHR ''0''" "digit_char 1 = CHR ''1''" "digit_char 2 = CHR ''2''"
  "digit_char 3 = CHR ''3''" "digit_char 4 = CHR ''4''" "digit_char 5 = CHR ''5''"
  "digit_char 6 = CHR ''6''" "digit_char 7 = CHR ''7''" "digit_char 8 = CHR ''8''"
  "digit_char 9 = CHR ''9''"
  by code_simp+

lemma digit_char_Suc_0: "digit_char (Suc 0) = CHR ''1''"
  using digit_char_simps(2) by simp

lemma month_group_pad:
  assumes "1 \<le> m" "m \<le> 12"
  shows "month_group (digit_char (m div 10) # digit_char (m mod 10) # r) = Some (m, r)"
proof -
  from assms have "m = 1 \<or> m = 2 \<or> m = 3 \<or> m = 4 \<or> m = 5 \<or> m = 6 \<or> m = 7 \<or> m = 8 \<or> m = 9
      \<or> m = 10 \<or> m = 11 \<or> m = 12" by arith
  then show ?thesis
    by (elim disjE)
       (simp_all add: month_group_def digit_char_simps digit_char_Suc_0 is_digit19_def
          digit_val_def less_eq_char_def)
qed

lemma day_group_pad:
  assumes "1 \<le> d" "d \<le> 31"
  shows "day_group [digit_char (d div 10), digit_char (d mod 10)] = Some (d, [])"
proof -
  from assms have "d = 1 \<or> d = 2 \<or> d = 3 \<or> d = 4 \<or> d = 5 \<or> d = 6 \<or> d = 7 \<or> d = 8 \<or> d = 9
      \<or> d = 10 \<or> d = 11 \<or> d = 12 \<or> d = 13 \<or> d = 14 \<or> d = 15 \<or> d = 16 \<or> d = 17 \<or> d = 18
      \<or> d = 19 \<or> d = 20 \<or> d = 21 \<or> d = 22 \<or> d = 23 \<or> d = 24 \<or> d = 25 \<or> d = 26 \<or> d = 27
      \<or> d = 28 \<or> d = 29 \<or> d = 30 \<or> d = 31" by arith
  then show ?thesis
    by (elim disjE)
       (simp_all add: day_group_def digit_char_simps digit_char_Suc_0 is_digit_def
          is_digit19_def digit_val_def less_eq_char_def)
qed

lemma year_digits:
  "1000 * ((y::nat) div 1000) + 100 * (y div 100 mod 10) + 10 * (y div 10 mod 10) + y mod 10 = y"
proof -
  have d2: "y div 100 = y div 10 div 10" and d3: "y div 1000 = y div 10 div 10 div 10"
    by (simp_all add: div_mult2_eq [symmetric])
  have e1: "y = 10 * (y div 10) + y mod 10" by simp
  have e2: "y div 10 = 10 * (y div 10 div 10) + y div 10 mod 10" by simp
  have e3: "y div 10 div 10 = 10 * (y div 10 div 10 div 10) + y div 10 div 10 mod 10" by simp
  show ?thesis unfolding d2 d3 using e1 e2 e3 by linarith
qed

lemma days_in_month_le: "days_in_month y m \<le> 31"
  by (simp add: days_in_month_def)

lemma div10_less: "(n::nat) \<le> 99 \<Longrightarrow> n div 10 < 10"
  by (rule less_mult_imp_div_less) simp

lemma div1000_less: "(n::nat) \<le> 9999 \<Longrightarrow> n div 1000 < 10"
  by (rule less_mult_imp_div_less) simp

lemma strptime_strftime:
  assumes "valid_date d"
  shows "strptime (strftime d) = Inr d"
proof -
  from assms have y: "1 \<le> year d" "year d \<le> 9999" and m: "1 \<le> month d" "month d \<le> 12"
    and dd: "1 \<le> day d" "day d \<le> days_in_month (year d) (month d)"
    by (simp_all add: valid_date_def)
  from dd(2) days_in_month_le [of "year d" "month d"] have d31: "day d \<le> 31" by simp
  have yd: "year d div 1000 < 10" "year d div 100 mod 10 < 10" "year d div 10 mod 10 < 10"
    "year d mod 10 < 10" using y(2) by (simp_all add: div1000_less)
  have "strptime (strftime d) = Inr \<lparr>year = year d, month = month d, day = day d\<rparr>"
    using y dd
    by (simp add: strptime_def strftime_def month_group_pad [OF m] day_group_pad [OF dd(1) d31]
        is_digit_digit_char yd digit_val_digit_char year_digits)
  then show ?thesis by simp
qed

lemma strftime_no_space:
  assumes "valid_date d"
  shows "CHR '' '' \<notin> set (strftime d)"
proof -
  from assms have y: "year d \<le> 9999" and m: "month d \<le> 12"
    and dd: "day d \<le> days_in_month (year d) (month d)"
    by (simp_all add: valid_date_def)
  from dd days_in_month_le [of "year d" "month d"] have d31: "day d \<le> 31" by simp
  have lt: "year d div 1000 < 10" "year d div 100 mod 10 < 10" "year d div 10 mod 10 < 10"
    "year d mod 10 < 10" "month d div 10 < 10" "month d mod 10 < 10" "day d div 10 < 10"
    "day d mod 10 < 10"
    using y m d31 by (simp_all add: div1000_less div10_less)
  have "CHR ''-'' \<noteq> CHR '' ''" by simp
  then show ?thesis
    using lt [THEN digit_char_not_space] by (simp add: strftime_def)
qed

lemma parseDate_strftime: "valid_date d \<Longrightarrow> parseDate (strftime d) = Some d"
  by (simp add: parseDate_def strptime_strftime)

lemma parseDate_example:
  "parseDate ''2024-03-01'' = Some \<lparr>year = 2024, month = 3, day = 1\<rparr>"
  by (simp add: parseDate_def strptime_def month_group_def day_group_def is_digit_def
      is_digit19_def digit_val_def days_in_month_def less_eq_char_def)

section \<open>What parsing leaves alone\<close>

lemma reset_parseWord: "reset (parseWord today s w) = reset s"
  by (simp add: parseWord_def reset_def Let_def)

lemma reset_foldl_parseWord: "reset (foldl (parseWord today) s ws) = reset s"
  by (induction ws arbitrary: s) (simp_all add: reset_parseWord)

lemma parseWord_frame:
  "is_complete (parseWord today s w) = is_complete s"
  "completion_date (parseWord today s w) = completion_date s"
  "priority (parseWord today s w) = priority s"
  by (simp_all add: parseWord_def Let_def)

lemma foldl_parseWord_frame:
  "is_complete (foldl (parseWord today) s ws) = is_complete s \<and>
   completion_date (foldl (parseWord today) s ws) = completion_date s \<and>
   priority (foldl (parseWord today) s ws) = priority s"
  by (induction ws arbitrary: s) (simp_all add: parseWord_frame)

lemma reset_idem: "reset (reset s) = reset s"
  by (simp add: reset_def)

lemma reset_update:
  "reset (s\<lparr>text := l\<rparr>) = reset s"
  "reset (s\<lparr>priority := p\<rparr>) = reset s"
  "reset (s\<lparr>is_complete := c, completion_date := d\<rparr>) = reset s"
  by (simp_all add: reset_def)

lemma parseLine_reset: "parseLine today self line = Inr t \<Longrightarrow> reset t = reset self"
  by (auto simp: parseLine_def Let_def reset_foldl_parseWord reset_parseWord reset_update
      reset_idem split: list.splits if_splits)

lemma parseLine_cong: "reset a = reset b \<Longrightarrow> parseLine today a line = parseLine today b line"
  by (simp add: parseLine_def Let_def split: list.splits)

lemma parseLine_text: "parseLine today self line = Inr t \<Longrightarrow> text t = line"
  by (auto simp: parseLine_def Let_def split: list.splits if_splits)

lemma parseLine_complete:
  "parseLine today self line = Inr t \<Longrightarrow> is_complete t = (hd (split_sp line) = ''x'')"
  by (auto simp: parseLine_def Let_def foldl_parseWord_frame parseWord_frame reset_def
      split: list.splits if_splits)

lemma parseLine_completion_date:
  "parseLine today self line = Inr t \<Longrightarrow> completion_date t \<noteq> None \<Longrightarrow> is_complete t"
  by (auto simp: parseLine_def Let_def foldl_parseWord_frame parseWord_frame reset_def
      split: list.splits if_splits)

lemma parseLine_priority:
  "parseLine today self line = Inr t \<Longrightarrow>
   priority t = (if priority_re (hd (split_sp line)) then butlast (tl (hd (split_sp line))) else [])"
  by (auto simp: parseLine_def Let_def foldl_parseWord_frame parseWord_frame reset_def
      priority_re_def split: list.splits if_splits)

text \<open>Every line but \<^verbatim>\<open>"x"\<close> is parsed.\<close>

lemma parseLine_total:
  assumes "line \<noteq> ''x''"
  shows "\<exists>t. parseLine today self line = Inr t"
proof (cases "split_sp line")
  case Nil
  then show ?thesis using split_sp_not_Nil by simp
next
  case (Cons w0 ws)
  show ?thesis
  proof (cases ws)
    case Nil
    with Cons have "line = w0" by (simp add: split_sp_single)
    with assms Cons Nil show ?thesis by (simp add: parseLine_def)
  next
    case (Cons w1 ws')
    with \<open>split_sp line = w0 # ws\<close> show ?thesis by (simp add: parseLine_def Let_def)
  qed
qed

section \<open>The example tasks are what the code builds\<close>

lemma Task_milk: "Task ''D'' today0 ''Buy milk'' = Inr task_milk"
  by (simp add: Task_def parseLine_def priority_re_def parseWord_def startswith_def reset_def
      init_fields_def task_milk_def)

lemma Task_A_milk: "Task ''D'' today0 ''(A) Buy milk'' = Inr task_A_milk"
  by (simp add: Task_def parseLine_def priority_re_def parseWord_def startswith_def reset_def
      init_fields_def task_A_milk_def less_eq_char_def)

lemma Task_B_milk: "Task ''D'' today0 ''(B) Buy milk'' = Inr task_B_milk"
  by (simp add: Task_def parseLine_def priority_re_def parseWord_def startswith_def reset_def
      init_fields_def task_B_milk_def less_eq_char_def)

lemma Task_x_foo: "Task ''D'' today0 ''x foo'' = Inr task_x_foo"
  by (simp add: Task_def parseLine_def priority_re_def parseWord_def startswith_def reset_def
      init_fields_def task_x_foo_def parseDate_def strptime_def)

lemma Task_D_call: "Task ''D'' today0 ''(D) call foo() now'' = Inr task_D_call"
  by (simp add: Task_def parseLine_def priority_re_def parseWord_def startswith_def reset_def
      init_fields_def task_D_call_def less_eq_char_def)

lemma parse_call_mom:
  "parseLine today0 (init_fields ''D'') ''(A) Call Mom @phone'' = Inr task_A_mom"
  by (simp add: parseLine_def priority_re_def parseWord_def startswith_def reset_def
      init_fields_def task_A_mom_def less_eq_char_def)

lemma setPending_x_foo: "setPending task_x_foo = Inr task_foo"
  by (simp add: setPending_def task_x_foo_def task_foo_def init_fields_def parseDate_def
      strptime_def)

lemma increasePriority_milk: "increasePriority task_milk = Inr task_D_milk"
  by (simp add: increasePriority_def task_milk_def task_D_milk_def init_fields_def
      format_prefix_def)

lemma decreasePriority_A_milk: "decreasePriority task_A_milk = Inr task_B_milk"
proof -
  have "\<not> (''D''::string) \<le> ''A''" by (simp add: less_eq_char_def less_char_def)
  moreover have "char_of (66::int) = CHR ''B''" by code_simp
  ultimately show ?thesis
    by (simp add: decreasePriority_def task_A_milk_def task_B_milk_def init_fields_def
        py_ord_def py_chr_def format_paren_def startswith_def)
qed

section \<open>What the mutators change\<close>

lemma setCompleted_fields:
  "is_complete (setCompleted today s)"
  "is_complete s \<Longrightarrow> setCompleted today s = s"
  "\<not> is_complete s \<Longrightarrow> completion_date (setCompleted today s) = Some today"
  by (simp_all add: setCompleted_def)

lemma setPending_fields:
  assumes "setPending s = Inr p"
  shows "is_complete s \<Longrightarrow> \<not> is_complete p \<and> completion_date p = None"
    and "\<not> is_complete s \<Longrightarrow> p = s"
  using assms by (auto simp: setPending_def split: list.splits if_splits)

lemma increasePriority_fields:
  assumes "increasePriority s = Inr q"
  shows "is_complete q = is_complete s \<and> completion_date q = completion_date s"
  using assms by (auto simp: increasePriority_def split: if_splits sum.splits)

lemma decreasePriority_fields:
  assumes "decreasePriority s = Inr r"
  shows "is_complete r = is_complete s \<and> completion_date r = completion_date s"
  using assms by (auto simp: decreasePriority_def Let_def split: if_splits sum.splits)

lemma split_completed:
  assumes "valid_date today"
  shows "split_sp (CHR ''x'' # CHR '' '' # strftime today @ CHR '' '' # s)
    = ''x'' # strftime today # split_sp s"
  using split_sp_word [OF strftime_no_space [OF assms], of s] by simp

lemma decreasePriority_at_lowest:
  assumes "\<not> is_complete t" and "lowest_priority t \<le> priority t"
  shows "decreasePriority t
    = Inr (t\<lparr>priority := [], text := replace1 ''()'' [] (drop 4 (text t))\<rparr>)"
  using assms by (simp add: decreasePriority_def Let_def format_paren_def)

lemma replace1_absent:
  assumes "\<And>u v. s \<noteq> u @ old @ v"
  shows "replace1 old new s = s"
  using assms
proof (induction s)
  case Nil
  from Nil [of "[]" "[]"] show ?case by simp
next
  case (Cons c cs)
  have ns: "\<not> startswith (c # cs) old"
  proof
    assume "startswith (c # cs) old"
    then have "c # cs = [] @ old @ drop (length old) (c # cs)"
      unfolding startswith_def by (metis append_Nil append_take_drop_id)
    with Cons.prems show False by blast
  qed
  have "cs \<noteq> u @ old @ v" for u v
    using Cons.prems [of "c # u" v] by simp
  then have "replace1 old new cs = cs" by (rule Cons.IH)
  with ns show ?case by simp
qed

section \<open>The loops of the filter\<close>

lemma match_any_no_None:
  "None \<notin> set fs \<Longrightarrow> match_any fs t = Inr (\<exists>f. Some f \<in> set fs \<and> f t)"
proof (induction fs)
  case Nil
  show ?case by simp
next
  case (Cons x fs)
  then obtain f where x: "x = Some f" by (cases x) auto
  with Cons show ?case by auto
qed

lemma filter_loop_no_None:
  "None \<notin> set fs \<Longrightarrow>
   filter_loop fs ts = Inr (filter (\<lambda>t. \<exists>f. Some f \<in> set fs \<and> f t) ts)"
  by (induction ts) (simp_all add: match_any_no_None)

section \<open>The claims\<close>

subsection \<open>Parsing\<close>

text \<open>
  C1. The claim: parsing is total, every string is accepted, also a line whose only
  token is \<^verbatim>\<open>x\<close>. The code raises there: after the \<^verbatim>\<open>x\<close> is taken off, the
  list of words is empty and \<^verbatim>\<open>words[0]\<close> is an IndexError, in \<^verbatim>\<open>parseLine\<close> and so
  in the constructor. (Every other line is parsed: \<open>parseLine_total\<close>.)
\<close>

theorem parseLine_lone_x_raises:
  "parseLine today self ''x'' = Inl IndexError \<and> Task lp today ''x'' = Inl IndexError"
  by (simp add: Task_def parseLine_def)

text \<open>
  C4. Parsing is idempotent: a parse that returns has set the text to the line as it
  is, and parsing that text again, on the task itself or on the object the first
  parse started from, gives the same task, field for field (on the same day).
\<close>

theorem parseLine_idempotent:
  assumes "parseLine today self line = Inr t"
  shows "text t = line \<and> parseLine today t (text t) = Inr t
    \<and> parseLine today self (text t) = Inr t"
proof -
  have same: "text t = line" using assms by (rule parseLine_text)
  have "reset t = reset self" using assms by (rule parseLine_reset)
  then have "parseLine today t line = parseLine today self line" by (rule parseLine_cong)
  with assms same show ?thesis by simp
qed

theorem parseLine_idempotent_witness:
  "parseLine today0 (init_fields ''D'') ''(A) Call Mom @phone'' = Inr task_A_mom \<and>
   text task_A_mom = ''(A) Call Mom @phone'' \<and>
   parseLine today0 task_A_mom (text task_A_mom) = Inr task_A_mom"
  using parseLine_idempotent [OF parse_call_mom] parse_call_mom by blast

text \<open>
  C7. The line \<^verbatim>\<open>x 2024-03-01 (B) Buy milk\<close> is parsed into a complete task with the
  completion date 2024-03-01 and no priority. In general a parsed task has a priority
  only if the first word of the line has the form of a priority, and then the task is
  not complete: a priority after the \<^verbatim>\<open>x\<close> and the date is not read.
\<close>

theorem parse_completed_then_priority_token:
  "(\<exists>t. parseLine today self ''x 2024-03-01 (B) Buy milk'' = Inr t \<and> is_complete t \<and>
        completion_date t = Some \<lparr>year = 2024, month = 3, day = 1\<rparr> \<and> priority t = []) \<and>
   (\<forall>line t. parseLine today self line = Inr t \<and> priority t \<noteq> [] \<longrightarrow>
        priority_re (hd (split_sp line)) \<and> \<not> is_complete t)"
proof (intro conjI allI impI)
  have sp: "split_sp ''x 2024-03-01 (B) Buy milk''
      = [''x'', ''2024-03-01'', ''(B)'', ''Buy'', ''milk'']"
    by simp
  have pw: "parseWord today s ''(B)'' = s" "parseWord today s ''Buy'' = s"
    "parseWord today s ''milk'' = s" for s
    by (simp_all add: parseWord_def startswith_def)
  show "\<exists>t. parseLine today self ''x 2024-03-01 (B) Buy milk'' = Inr t \<and> is_complete t \<and>
        completion_date t = Some \<lparr>year = 2024, month = 3, day = 1\<rparr> \<and> priority t = []"
    by (simp add: parseLine_def sp parseDate_example pw reset_def Let_def del: split_sp.simps)
next
  fix line t
  assume a: "parseLine today self line = Inr t \<and> priority t \<noteq> []"
  then have p: "priority_re (hd (split_sp line))"
    using parseLine_priority [of today self line t] by (auto split: if_splits)
  then show "priority_re (hd (split_sp line))" .
  from p have "hd (split_sp line) \<noteq> ''x''" by (auto simp: priority_re_def)
  with a parseLine_complete [of today self line t] show "\<not> is_complete t" by simp
qed

theorem parse_completed_then_priority_token_witness:
  "parseLine today0 (init_fields ''D'') ''(A) Call Mom @phone'' = Inr task_A_mom \<and>
   priority task_A_mom \<noteq> [] \<and> priority_re (hd (split_sp ''(A) Call Mom @phone'')) \<and>
   \<not> is_complete task_A_mom"
proof -
  have p: "priority task_A_mom \<noteq> []" by (simp add: task_A_mom_def)
  from parse_completed_then_priority_token [of today0 "init_fields ''D''"] parse_call_mom p
  have "priority_re (hd (split_sp ''(A) Call Mom @phone'')) \<and> \<not> is_complete task_A_mom"
    by blast
  with parse_call_mom p show ?thesis by simp
qed

subsection \<open>The completion date\<close>

text \<open>
  C3, as amended. A completion date is set only on a complete task: this holds after
  every parse that returns, and \<^verbatim>\<open>setCompleted\<close>, \<^verbatim>\<open>setPending\<close>,
  \<^verbatim>\<open>increasePriority\<close> and \<^verbatim>\<open>decreasePriority\<close> keep it. The four of them also
  keep the two-sided form (a date is set exactly on a complete task) where it holds
  before. A parse does not give the two-sided form.
\<close>

theorem completion_date_invariant:
  "(parseLine today self line = Inr t \<longrightarrow> date_only_if_complete t) \<and>
   (date_only_if_complete s \<longrightarrow> date_only_if_complete (setCompleted today s)) \<and>
   (date_only_if_complete s \<and> setPending s = Inr p \<longrightarrow> date_only_if_complete p) \<and>
   (date_only_if_complete s \<and> increasePriority s = Inr q \<longrightarrow> date_only_if_complete q) \<and>
   (date_only_if_complete s \<and> decreasePriority s = Inr r \<longrightarrow> date_only_if_complete r) \<and>
   (date_iff_complete s \<longrightarrow> date_iff_complete (setCompleted today s)) \<and>
   (date_iff_complete s \<and> setPending s = Inr p \<longrightarrow> date_iff_complete p) \<and>
   (date_iff_complete s \<and> increasePriority s = Inr q \<longrightarrow> date_iff_complete q) \<and>
   (date_iff_complete s \<and> decreasePriority s = Inr r \<longrightarrow> date_iff_complete r)"
proof (intro conjI impI)
  assume "parseLine today self line = Inr t"
  then show "date_only_if_complete t"
    using parseLine_completion_date [of today self line t]
    unfolding date_only_if_complete_def by blast
next
  assume "date_only_if_complete s"
  then show "date_only_if_complete (setCompleted today s)"
    by (simp add: date_only_if_complete_def setCompleted_def)
next
  assume "date_only_if_complete s \<and> setPending s = Inr p"
  then show "date_only_if_complete p"
    using setPending_fields [of s p] by (cases "is_complete s") (auto simp: date_only_if_complete_def)
next
  assume "date_only_if_complete s \<and> increasePriority s = Inr q"
  then show "date_only_if_complete q"
    using increasePriority_fields [of s q] by (simp add: date_only_if_complete_def)
next
  assume "date_only_if_complete s \<and> decreasePriority s = Inr r"
  then show "date_only_if_complete r"
    using decreasePriority_fields [of s r] by (simp add: date_only_if_complete_def)
next
  assume "date_iff_complete s"
  then show "date_iff_complete (setCompleted today s)"
    by (simp add: date_iff_complete_def setCompleted_def)
next
  assume "date_iff_complete s \<and> setPending s = Inr p"
  then show "date_iff_complete p"
    using setPending_fields [of s p] by (cases "is_complete s") (auto simp: date_iff_complete_def)
next
  assume "date_iff_complete s \<and> increasePriority s = Inr q"
  then show "date_iff_complete q"
    using increasePriority_fields [of s q] by (simp add: date_iff_complete_def)
next
  assume "date_iff_complete s \<and> decreasePriority s = Inr r"
  then show "date_iff_complete r"
    using decreasePriority_fields [of s r] by (simp add: date_iff_complete_def)
qed

theorem completion_date_invariant_witness:
  "parseLine today0 (init_fields ''D'') ''x foo'' = Inr task_x_foo \<and>
   date_only_if_complete task_x_foo \<and>
   date_only_if_complete (setCompleted today0 task_x_foo) \<and>
   setPending task_x_foo = Inr task_foo \<and> date_only_if_complete task_foo \<and>
   date_iff_complete task_milk \<and> date_iff_complete (setCompleted today0 task_milk) \<and>
   increasePriority task_milk = Inr task_D_milk \<and> date_iff_complete task_D_milk \<and>
   decreasePriority task_A_milk = Inr task_B_milk \<and> date_iff_complete task_B_milk"
proof -
  have px: "parseLine today0 (init_fields ''D'') ''x foo'' = Inr task_x_foo"
    using Task_x_foo by (simp add: Task_def)
  have m: "date_iff_complete task_milk" "date_iff_complete task_A_milk"
    by (simp_all add: date_iff_complete_def task_milk_def task_A_milk_def init_fields_def)
  note w = completion_date_invariant [of today0 "init_fields ''D''" "''x foo''" task_x_foo
      task_x_foo task_foo task_x_foo task_x_foo]
  note i = completion_date_invariant [of today0 "init_fields ''D''" "''x foo''" task_x_foo
      task_milk task_milk task_D_milk task_milk]
  note d = completion_date_invariant [of today0 "init_fields ''D''" "''x foo''" task_x_foo
      task_A_milk task_A_milk task_A_milk task_B_milk]
  from w px have 1: "date_only_if_complete task_x_foo" by blast
  from w 1 have 2: "date_only_if_complete (setCompleted today0 task_x_foo)" by blast
  from w 1 setPending_x_foo have 3: "date_only_if_complete task_foo" by blast
  from i m(1) have 4: "date_iff_complete (setCompleted today0 task_milk)" by blast
  from i m(1) increasePriority_milk have 5: "date_iff_complete task_D_milk" by blast
  from d m(2) decreasePriority_A_milk have 6: "date_iff_complete task_B_milk" by blast
  from px 1 2 3 4 5 6 m(1) setPending_x_foo increasePriority_milk decreasePriority_A_milk
  show ?thesis by blast
qed

text \<open>The claim as it was stated fails: the line \<^verbatim>\<open>x foo\<close> is parsed into a complete
  task with no completion date.\<close>

theorem parse_x_without_date_counterexample:
  "Task ''D'' today0 ''x foo'' = Inr task_x_foo \<and> is_complete task_x_foo \<and>
   completion_date task_x_foo = None \<and> \<not> date_iff_complete task_x_foo"
  by (simp add: Task_x_foo) (simp add: task_x_foo_def init_fields_def date_iff_complete_def)

subsection \<open>Completing and reopening\<close>

text \<open>
  C5. On a task that is not complete, \<^verbatim>\<open>setCompleted\<close> and then \<^verbatim>\<open>setPending\<close>
  give back the text as it was, and leave the task not complete with no completion
  date; nothing else of the task has changed. Today is a date of the calendar with a
  year of four digits.
\<close>

theorem setCompleted_setPending:
  assumes "\<not> is_complete t" and "valid_date today" and "1000 \<le> year today"
  shows "\<exists>t'. setPending (setCompleted today t) = Inr t' \<and> text t' = text t \<and>
           \<not> is_complete t' \<and> completion_date t' = None \<and> t' = t\<lparr>completion_date := None\<rparr>"
proof -
  have "setPending (setCompleted today t)
      = Inr (t\<lparr>completion_date := None, text := text t, is_complete := False\<rparr>)"
    using assms(1)
    by (simp add: setPending_def setCompleted_def split_completed [OF assms(2)]
        parseDate_strftime [OF assms(2)] join_split del: split_sp.simps)
  moreover have "t\<lparr>completion_date := None, text := text t, is_complete := False\<rparr>
      = t\<lparr>completion_date := None\<rparr>"
    using assms(1) by simp
  ultimately show ?thesis using assms(1) by simp
qed

theorem setCompleted_setPending_witness:
  "\<not> is_complete task_A_milk \<and> valid_date today0 \<and> 1000 \<le> year today0 \<and>
   text (setCompleted today0 task_A_milk) = ''x 2024-06-15 (A) Buy milk'' \<and>
   setPending (setCompleted today0 task_A_milk) = Inr task_A_milk"
proof -
  have a: "\<not> is_complete task_A_milk" and c: "completion_date task_A_milk = None"
    by (simp_all add: task_A_milk_def init_fields_def)
  have v: "valid_date today0" and y: "1000 \<le> year today0"
    by (simp_all add: valid_date_def today0_def days_in_month_def)
  have f: "strftime today0 = ''2024-06-15''"
    by (simp add: strftime_def today0_def digit_char_simps digit_char_Suc_0)
  have s: "text (setCompleted today0 task_A_milk) = ''x 2024-06-15 (A) Buy milk''"
    using a by (simp add: setCompleted_def f) (simp add: task_A_milk_def)
  from setCompleted_setPending [OF a v y] c
  have "setPending (setCompleted today0 task_A_milk) = Inr task_A_milk" by auto
  with a v y s show ?thesis by simp
qed

subsection \<open>Lowering the lowest priority\<close>

text \<open>
  C6. The claim: on a task at the lowest priority, \<^verbatim>\<open>decreasePriority\<close> takes the
  four characters of the priority off the text and leaves the rest as it is. The code
  also removes the first \<^verbatim>\<open>()\<close> of the rest (\<open>decreasePriority_at_lowest\<close>): from
  \<^verbatim>\<open>(D) call foo() now\<close> it makes \<^verbatim>\<open>call foo now\<close>. Where the rest has no
  \<^verbatim>\<open>()\<close>, it is left as it is (\<open>replace1_absent\<close>).
\<close>

theorem decreasePriority_drops_parentheses:
  "Task ''D'' today0 ''(D) call foo() now'' = Inr task_D_call \<and>
   \<not> is_complete task_D_call \<and> lowest_priority task_D_call \<le> priority task_D_call \<and>
   drop 4 (text task_D_call) = ''call foo() now'' \<and>
   decreasePriority task_D_call = Inr (task_D_call\<lparr>priority := [], text := ''call foo now''\<rparr>)"
  by (simp add: Task_D_call)
     (simp add: task_D_call_def init_fields_def decreasePriority_def format_paren_def
        startswith_def)

subsection \<open>The order of tasks\<close>

text \<open>
  C2, as amended. For two tasks of equal completeness and different priority: a task
  with no priority is less than a task with a priority, a task with a priority is not
  less than a task with none, and of two tasks with a priority the one with the
  alphabetically greater priority is the lesser.
\<close>

theorem task_lt_priority:
  assumes "is_complete a = is_complete b" and "priority a \<noteq> priority b"
  shows "(priority a = [] \<longrightarrow> task_lt a b = Inr True) \<and>
         (priority a \<noteq> [] \<and> priority b = [] \<longrightarrow> task_lt a b = Inr False) \<and>
         (priority a \<noteq> [] \<and> priority b \<noteq> [] \<longrightarrow> task_lt a b = Inr (priority b < priority a))"
  using assms by (auto simp: task_lt_def)

theorem task_lt_priority_witness:
  "task_lt task_milk task_A_milk = Inr True \<and> task_lt task_A_milk task_milk = Inr False \<and>
   task_lt task_B_milk task_A_milk = Inr True \<and> task_lt task_A_milk task_B_milk = Inr False"
proof -
  have c: "is_complete task_milk = is_complete task_A_milk"
    "is_complete task_A_milk = is_complete task_milk"
    "is_complete task_B_milk = is_complete task_A_milk"
    "is_complete task_A_milk = is_complete task_B_milk"
    by (simp_all add: task_milk_def task_A_milk_def task_B_milk_def init_fields_def)
  have p: "priority task_milk = []" "priority task_A_milk = ''A''" "priority task_B_milk = ''B''"
    by (simp_all add: task_milk_def task_A_milk_def task_B_milk_def init_fields_def)
  have o: "(''A''::string) < ''B''" "\<not> (''B''::string) < ''A''"
    by (simp_all add: less_char_def)
  show ?thesis
    using task_lt_priority [OF c(1)] task_lt_priority [OF c(2)] task_lt_priority [OF c(3)]
      task_lt_priority [OF c(4)] o
    by (simp add: p)
qed

text \<open>The claim as it was stated fails: \<^verbatim>\<open>Buy milk\<close>, with no priority, is less than
  \<^verbatim>\<open>(A) Buy milk\<close>.\<close>

theorem no_priority_less_counterexample:
  "Task ''D'' today0 ''Buy milk'' = Inr task_milk \<and>
   Task ''D'' today0 ''(A) Buy milk'' = Inr task_A_milk \<and>
   is_complete task_milk = is_complete task_A_milk \<and>
   priority task_milk = [] \<and> priority task_A_milk = ''A'' \<and>
   task_lt task_milk task_A_milk = Inr True"
  by (simp add: Task_milk Task_A_milk) (simp add: task_lt_def task_milk_def task_A_milk_def init_fields_def)

text \<open>
  C8. \<^verbatim>\<open>_lowerCompleteness\<close> raises exactly on two tasks of equal completeness, and
  the comparison of two tasks never raises: it returns a truth value, and it is the
  result of \<^verbatim>\<open>_lowerCompleteness\<close> only where the completeness differs.
\<close>

theorem completeness_tie_break:
  "((\<exists>e. lowerCompleteness a b = Inl e) \<longleftrightarrow> is_complete a = is_complete b) \<and>
   (\<exists>r. task_lt a b = Inr r) \<and>
   (is_complete a \<noteq> is_complete b \<longrightarrow> task_lt a b = lowerCompleteness a b)"
  by (auto simp: lowerCompleteness_def task_lt_def)

theorem completeness_tie_break_witness:
  "is_complete task_x_foo \<noteq> is_complete task_milk \<and>
   task_lt task_x_foo task_milk = Inr True \<and> task_lt task_milk task_x_foo = Inr False \<and>
   lowerCompleteness task_milk task_A_milk = Inl RuntimeError \<and>
   task_lt task_milk task_A_milk = Inr True"
proof -
  have c: "is_complete task_x_foo \<noteq> is_complete task_milk"
    "is_complete task_milk \<noteq> is_complete task_x_foo"
    by (simp_all add: task_x_foo_def task_milk_def init_fields_def)
  have l: "lowerCompleteness task_x_foo task_milk = Inr True"
    "lowerCompleteness task_milk task_x_foo = Inr False"
    "lowerCompleteness task_milk task_A_milk = Inl RuntimeError"
    by (simp_all add: lowerCompleteness_def task_x_foo_def task_milk_def task_A_milk_def
        init_fields_def)
  have m: "task_lt task_milk task_A_milk = Inr True"
    by (simp add: task_lt_def task_milk_def task_A_milk_def init_fields_def)
  from completeness_tie_break [of task_x_foo task_milk]
    completeness_tie_break [of task_milk task_x_foo] c l m
  show ?thesis by simp
qed

text \<open>
  C10. Two tasks are equal exactly when their texts are equal; no other field of a
  task, the lowest priority of the settings among them, changes the result.
\<close>

theorem task_eq_text_only:
  "(task_eq a b \<longleftrightarrow> text a = text b) \<and>
   task_eq (a\<lparr>highest_priority := hp, lowest_priority := lp, contexts := cs, projects := ps,
              priority := p, is_complete := c, completion_date := cd, is_future := f,
              due := d, threshold := th, keywords := kw\<rparr>) b = task_eq a b"
  by (simp add: task_eq_def)

theorem task_eq_text_only_witness:
  "task_eq (task_milk\<lparr>lowest_priority := ''Z'', priority := ''A''\<rparr>) task_milk \<and>
   \<not> task_eq task_milk task_A_milk"
proof -
  have "text task_milk \<noteq> text task_A_milk" "text (task_milk\<lparr>lowest_priority := ''Z'', priority := ''A''\<rparr>) = text task_milk"
    by (simp_all add: task_milk_def task_A_milk_def)
  with task_eq_text_only [of task_milk task_A_milk]
    task_eq_text_only [of "task_milk\<lparr>lowest_priority := ''Z'', priority := ''A''\<rparr>" task_milk]
  show ?thesis by simp
qed

subsection \<open>Filtering\<close>

text \<open>
  C9. \<^verbatim>\<open>filterTasks\<close> returns the tasks as they are when \<^verbatim>\<open>None\<close> is among the
  filters, and otherwise the tasks that some filter matches, in their order; with no
  filter it returns no task, and with the one filter \<^verbatim>\<open>None\<close> all of them.
\<close>

theorem filterTasks_spec:
  "(None \<in> set fs \<longrightarrow> filterTasks fs ts = Inr ts) \<and>
   (None \<notin> set fs \<longrightarrow>
      filterTasks fs ts = Inr (filter (\<lambda>t. \<exists>f. Some f \<in> set fs \<and> f t) ts)) \<and>
   filterTasks [] ts = Inr [] \<and> filterTasks [None] ts = Inr ts"
  by (simp add: filterTasks_def filter_loop_no_None)

theorem filterTasks_spec_witness:
  "filterTasks [Some is_complete, None] [task_milk, task_x_foo] = Inr [task_milk, task_x_foo] \<and>
   filterTasks [Some is_complete] [task_milk, task_x_foo] = Inr [task_x_foo] \<and>
   filterTasks [Some is_complete, Some (\<lambda>t. priority t = [])] [task_A_milk, task_milk, task_x_foo]
     = Inr [task_milk, task_x_foo]"
proof -
  have c: "\<not> is_complete task_milk" "is_complete task_x_foo" "\<not> is_complete task_A_milk"
    "priority task_milk = []" "priority task_A_milk \<noteq> []"
    by (simp_all add: task_x_foo_def task_milk_def task_A_milk_def init_fields_def)
  from filterTasks_spec [of "[Some is_complete, None]" "[task_milk, task_x_foo]"]
    filterTasks_spec [of "[Some is_complete]" "[task_milk, task_x_foo]"]
    filterTasks_spec [of "[Some is_complete, Some (\<lambda>t. priority t = [])]"
      "[task_A_milk, task_milk, task_x_foo]"] c
  show ?thesis by auto
qed

end
